theory Spec2Isabelle
  imports Main "HOL-Library.Char_ord" "HOL-Library.List_Lexorder"
begin

section \<open>Python strings\<close>

text \<open>
  A Python \<open>str\<close> is modelled as a \<open>string\<close> whose characters are the code points
  below 256. On these, \<open>str.isspace\<close> (which \<open>str.split()\<close>, \<open>str.strip()\<close> and the
  regular-expression class \<open>\s\<close> all consult) holds for TAB, LF, VT, FF, CR, FS, GS, RS, US,
  SPACE, NEL and NBSP, and \<open>str.lower\<close> shifts \<open>A\<close>..\<open>Z\<close> and the Latin-1 capitals
  by 32.
\<close>

definition is_space :: "char \<Rightarrow> bool" where
  "is_space c =
     (let n = (of_char c :: nat)
      in (9 \<le> n \<and> n \<le> 13) \<or> (28 \<le> n \<and> n \<le> 32) \<or> n = 133 \<or> n = 160)"

definition lower_char :: "char \<Rightarrow> char" where
  "lower_char c =
     (let n = (of_char c :: nat)
      in if (65 \<le> n \<and> n \<le> 90) \<or> (192 \<le> n \<and> n \<le> 222 \<and> n \<noteq> 215)
         then char_of (n + 32) else c)"

definition lower :: "string \<Rightarrow> string" where
  "lower s = map lower_char s"

text \<open>\<open>s.startswith(p)\<close>\<close>

fun startswith :: "string \<Rightarrow> string \<Rightarrow> bool" where
  "startswith s [] = True"
| "startswith [] (p # ps) = False"
| "startswith (c # cs) (p # ps) = (c = p \<and> startswith cs ps)"

text \<open>\<open>sub in s\<close>\<close>

fun contains :: "string \<Rightarrow> string \<Rightarrow> bool" where
  "contains [] sub = (sub = [])"
| "contains (c # cs) sub = (startswith (c # cs) sub \<or> contains cs sub)"

text \<open>\<open>sep.join(xs)\<close>\<close>

fun join :: "string \<Rightarrow> string list \<Rightarrow> string" where
  "join sep [] = []"
| "join sep [x] = x"
| "join sep (x # y # ys) = x @ sep @ join sep (y # ys)"

text \<open>\<open>s.strip()\<close>\<close>

definition strip :: "string \<Rightarrow> string" where
  "strip s = rev (dropWhile is_space (rev (dropWhile is_space s)))"

text \<open>\<open>s.split()\<close>: the maximal runs of characters that are not whitespace.\<close>

function split_ws :: "string \<Rightarrow> string list" where
  "split_ws [] = []"
| "split_ws (c # cs) =
     (if is_space c then split_ws cs
      else (c # takeWhile (\<lambda>x. \<not> is_space x) cs) # split_ws (dropWhile (\<lambda>x. \<not> is_space x) cs))"
  by pat_completeness auto
termination
  by (relation "measure length") (auto simp: less_Suc_eq_le length_dropWhile_le)

text \<open>
  The first occurrence of a separator: the text before it and the text after it.
\<close>

fun break_on :: "string \<Rightarrow> string \<Rightarrow> (string \<times> string) option" where
  "break_on sep [] = (if sep = [] then Some ([], []) else None)"
| "break_on sep (c # cs) =
     (if startswith (c # cs) sep then Some ([], drop (length sep) (c # cs))
      else map_option (\<lambda>(a, b). (c # a, b)) (break_on sep cs))"

text \<open>\<open>s.split(sep, maxsplit)\<close> for a non-empty separator.\<close>

fun split_max :: "string \<Rightarrow> string \<Rightarrow> nat \<Rightarrow> string list" where
  "split_max sep s 0 = [s]"
| "split_max sep s (Suc n) =
     (case break_on sep s of None \<Rightarrow> [s] | Some (a, b) \<Rightarrow> a # split_max sep b n)"

text \<open>\<open>s.split(c)\<close> for a separator of one character.\<close>

function split_char :: "char \<Rightarrow> string \<Rightarrow> string list" where
  "split_char c s =
     (case dropWhile (\<lambda>x. x \<noteq> c) s of
        [] \<Rightarrow> [s]
      | x # rest \<Rightarrow> takeWhile (\<lambda>x. x \<noteq> c) s # split_char c rest)"
  by pat_completeness auto
termination
proof (relation "measure (\<lambda>(c, s). length s)")
  show "wf (measure (\<lambda>(c, s). length s))" by simp
next
  fix c :: char and s x rest
  assume "dropWhile (\<lambda>x. x \<noteq> c) s = x # rest"
  then have "length (x # rest) \<le> length s"
    using length_dropWhile_le [of "\<lambda>x. x \<noteq> c" s] by simp
  then show "((c, rest), (c, s)) \<in> measure (\<lambda>(c, s). length s)" by simp
qed

declare split_char.simps [simp del]

text \<open>
  \<open>xs[:n]\<close> for a Python integer \<open>n\<close>: a negative bound counts from the end.
\<close>

definition slice_to :: "'a list \<Rightarrow> int \<Rightarrow> 'a list" where
  "slice_to xs n = (if 0 \<le> n then take (nat n) xs else take (length xs - nat (- n)) xs)"

datatype py_error = ValueError | AttributeError | TypeError | KeyError | OSError

section \<open>Metadata extractor: \<open>extract_snippet\<close>\<close>

subsection \<open>ARCHIVE-TOOLKIT.py\<close>

text \<open>
  \<open>re.sub(r'^---\n.*?\n---\n', '', content, flags=re.DOTALL)\<close>: the pattern is anchored
  at the start of the text, so it matches at most once; the lazy \<open>.*?\<close> stops at the first
  \<open>\n---\n\<close> after the opening \<open>---\n\<close>.
\<close>

definition strip_frontmatter :: "string \<Rightarrow> string" where
  "strip_frontmatter content =
     (if startswith content [CHR ''-'', CHR ''-'', CHR ''-'', CHR 0x0A]
      then (case break_on [CHR 0x0A, CHR ''-'', CHR ''-'', CHR ''-'', CHR 0x0A] (drop 4 content) of
              None \<Rightarrow> content
            | Some (header, rest) \<Rightarrow> rest)
      else content)"

definition extract_snippet_root :: "string \<Rightarrow> int \<Rightarrow> string" where
  "extract_snippet_root content0 word_count =
     (let content = strip_frontmatter content0;
          words = split_ws content;
          snippet = join '' '' (slice_to words word_count)
      in snippet)"

subsection \<open>directive/archive\_toolkit.py\<close>

text \<open>
  \<open>re.sub(r'#+\s', '', text)\<close>, scanning left to right with the number of \<open>#\<close> read
  since the last other character: a run of \<open>#\<close> followed by a whitespace character is
  dropped together with that character, any other run is kept.
\<close>

fun sub_hashes :: "nat \<Rightarrow> string \<Rightarrow> string" where
  "sub_hashes n [] = replicate n (CHR ''#'')"
| "sub_hashes n (c # cs) =
     (if c = CHR ''#'' then sub_hashes (Suc n) cs
      else if 0 < n \<and> is_space c then sub_hashes 0 cs
      else replicate n (CHR ''#'') @ c # sub_hashes 0 cs)"

text \<open>
  The body of the \<open>try\<close>: \<open>_, _, content = text.split("---", 2)\<close> raises
  \<open>ValueError\<close> unless the split has three parts.
\<close>

definition skip_frontmatter_try :: "string \<Rightarrow> py_error + string" where
  "skip_frontmatter_try text =
     (case split_max ''---'' text 2 of
        [a, b, content] \<Rightarrow> Inr (strip content)
      | _ \<Rightarrow> Inl ValueError)"

text \<open>The header skip with its \<open>except ValueError: pass\<close>.\<close>

definition skip_frontmatter :: "string \<Rightarrow> py_error + string" where
  "skip_frontmatter text0 =
     (let text = strip text0
      in if startswith text ''---''
         then (case skip_frontmatter_try text of
                 Inr t \<Rightarrow> Inr t
               | Inl ValueError \<Rightarrow> Inr text
               | Inl e \<Rightarrow> Inl e)
         else Inr text)"

definition extract_snippet_directive :: "string \<Rightarrow> int \<Rightarrow> py_error + string" where
  "extract_snippet_directive text0 word_count =
     (case skip_frontmatter text0 of
        Inl e \<Rightarrow> Inl e
      | Inr text1 \<Rightarrow>
          let text = sub_hashes 0 text1;
              words = split_ws text;
              snippet = join '' '' (slice_to words word_count)
          in Inr (if int (length words) > word_count then snippet @ ''...'' else snippet))"

subsection \<open>What the specification says of a snippet\<close>

text \<open>
  A token, as \<open>str.split()\<close> yields them: not empty and free of whitespace.
\<close>

definition token :: "string \<Rightarrow> bool" where
  "token w = (w \<noteq> [] \<and> list_all (\<lambda>c. \<not> is_space c) w)"

text \<open>
  The snippet as the specification words it, over the text that remains after header
  stripping: the first \<open>word_count\<close> tokens joined with single spaces, with an ellipsis
  marker appended exactly when there were more tokens than that.
\<close>

definition snippet_spec :: "string \<Rightarrow> nat \<Rightarrow> string" where
  "snippet_spec remaining word_count =
     (let words = split_ws remaining
      in join '' '' (take word_count words)
         @ (if word_count < length words then ''...'' else []))"

section \<open>Metadata extractor: \<open>suggest_metadata\<close> (ARCHIVE-TOOLKIT.py)\<close>

text \<open>
  The result is the triple \<open>(domain, ";".join(tags), stage)\<close>. The \<open>filename\<close>
  parameter is accepted and never read.
\<close>

definition suggest_metadata :: "string \<Rightarrow> string \<Rightarrow> string \<times> string \<times> string" where
  "suggest_metadata content filename =
     (let lower_content = lower content;
          domain0 = ''social-engineering'';
          tags0 = ([] :: string list);
          stage0 = ''experientialdata'';
          stage = (if contains lower_content ''doctrine'' then ''formalizedframework'' else stage0);
          (domain, tags) =
            (if contains lower_content ''code'' \<or> contains lower_content ''function''
                \<or> contains lower_content ''def ''
             then (''tradecraft'', tags0 @ [''code-snippet''])
             else if contains lower_content ''journal'' \<or> contains lower_content ''diary''
                \<or> contains lower_content ''felt''
             then (''forensic-psychology'', tags0 @ [''reflection''])
             else (domain0, tags0))
      in (domain, join '';'' tags, stage))"


section \<open>Taxonomy validator: \<open>validate_manifest\<close> (ARCHIVE-TOOLKIT.py)\<close>

text \<open>
  A manifest row as \<open>csv.DictReader\<close> hands it over: a \<open>dict\<close> from the column names
  of the header to the cells. A column that the header does not have is no key of the
  \<open>dict\<close>; a row with fewer cells than the header has Python's \<open>None\<close> in the cells
  that are missing.
\<close>

type_synonym cell = "string option"

type_synonym csv_row = "string \<Rightarrow> cell option"

text \<open>\<open>row[key]\<close>, \<open>row.get(key)\<close> and \<open>row.get(key, default)\<close>\<close>

definition getitem :: "csv_row \<Rightarrow> string \<Rightarrow> py_error + cell" where
  "getitem r key = (case r key of None \<Rightarrow> Inl KeyError | Some v \<Rightarrow> Inr v)"

definition get :: "csv_row \<Rightarrow> string \<Rightarrow> cell" where
  "get r key = (case r key of None \<Rightarrow> None | Some v \<Rightarrow> v)"

definition get_or :: "csv_row \<Rightarrow> string \<Rightarrow> string \<Rightarrow> cell" where
  "get_or r key dflt = (case r key of None \<Rightarrow> Some dflt | Some v \<Rightarrow> v)"

text \<open>How an f-string shows a cell.\<close>

definition shown :: "cell \<Rightarrow> string" where
  "shown v = (case v of None \<Rightarrow> ''None'' | Some s \<Rightarrow> s)"







text \<open>\<open>[t.strip() for t in s.split(';') if t.strip()]\<close>\<close>

definition split_tags :: "char \<Rightarrow> string \<Rightarrow> string list" where
  "split_tags sep s = filter (\<lambda>t. t \<noteq> []) (map strip (split_char sep s))"





















section \<open>Paths and the file tree\<close>

text \<open>
  \<open>s.replace(old, new)\<close> for a non-empty \<open>old\<close>: the occurrences are replaced from
  left to right, without overlap.
\<close>

function replace :: "string \<Rightarrow> string \<Rightarrow> string \<Rightarrow> string" where
  "replace old new [] = []"
| "replace old new (c # s) =
     (if old \<noteq> [] \<and> startswith (c # s) old
      then new @ replace old new (drop (length old) (c # s))
      else c # replace old new s)"
  by pat_completeness auto
termination
  by (relation "measure (\<lambda>(old, new, s). length s)") (auto simp: Suc_le_eq)

definition endswith :: "string \<Rightarrow> string \<Rightarrow> bool" where
  "endswith s suffix = startswith (rev s) (rev suffix)"

text \<open>
  A \<open>pathlib\<close> path on a POSIX system. Every path of the two commands starts at the
  working directory, which is absolute, so a path is its root (\<open>/\<close>, or the \<open>//\<close> that
  \<open>pathlib\<close> keeps apart) and its parts. A segment is split at \<open>/\<close>; empty parts and \<open>.\<close>
  are dropped, \<open>..\<close> is kept. Joining an absolute segment replaces the path.
\<close>

datatype ppath = PPath (double_root: bool) (parts: "string list")

definition path_parts :: "string \<Rightarrow> string list" where
  "path_parts s = filter (\<lambda>p. p \<noteq> [] \<and> p \<noteq> ''.'') (split_char CHR ''/'' s)"

definition double_slash :: "string \<Rightarrow> bool" where
  "double_slash s = (startswith s ''//'' \<and> \<not> startswith s ''///'')"

definition joinpath :: "ppath \<Rightarrow> string \<Rightarrow> ppath" where
  "joinpath p s =
     (if startswith s ''/'' then PPath (double_slash s) (path_parts s)
      else PPath (double_root p) (parts p @ path_parts s))"

text \<open>\<open>str(p)\<close>, \<open>p.name\<close> and \<open>Path(s).stem\<close> (Python 3.11).\<close>

definition path_str :: "ppath \<Rightarrow> string" where
  "path_str p = (if double_root p then ''//'' else ''/'') @ join ''/'' (parts p)"

definition path_name :: "string list \<Rightarrow> string" where
  "path_name ps = (if ps = [] then [] else last ps)"

definition rfind_dot :: "string \<Rightarrow> nat option" where
  "rfind_dot name =
     (if CHR ''.'' \<in> set name
      then Some (length name - 1 - length (takeWhile (\<lambda>c. c \<noteq> CHR ''.'') (rev name)))
      else None)"

definition stem :: "string \<Rightarrow> string" where
  "stem s =
     (let name = path_name (path_parts s)
      in case rfind_dot name of
           None \<Rightarrow> name
         | Some i \<Rightarrow> if 0 < i \<and> i < length name - 1 then take i name else name)"

text \<open>
  \<open>p.relative_to(base)\<close> compares the parts, without looking at the file tree; the
  result is rendered as \<open>str\<close> does (\<open>.\<close> for no parts).
\<close>

definition relative_to :: "ppath \<Rightarrow> ppath \<Rightarrow> py_error + string" where
  "relative_to p base =
     (if double_root p = double_root base
         \<and> take (length (parts base)) (parts p) = parts base
      then (let rest = drop (length (parts base)) (parts p)
            in Inr (if rest = [] then ''.'' else join ''/'' rest))
      else Inl ValueError)"

text \<open>
  The file tree: the regular files with their text, and the directories, each under the
  list of names that leads to it from the root directory (the empty list, always a
  directory). The tree has no symbolic links, every operation is permitted, and names and
  texts have no length limit; a text is the decoded content of its file.
\<close>

record filesystem =
  file_text :: "string list \<Rightarrow> string option"
  dirs :: "string list set"

definition is_dir :: "filesystem \<Rightarrow> string list \<Rightarrow> bool" where
  "is_dir fs q = (q = [] \<or> q \<in> dirs fs)"

definition is_file :: "filesystem \<Rightarrow> string list \<Rightarrow> bool" where
  "is_file fs q = (\<not> is_dir fs q \<and> file_text fs q \<noteq> None)"

text \<open>
  How the system follows a path: every part but the last is looked up in a directory
  (\<open>ENOENT\<close> or \<open>ENOTDIR\<close> otherwise, both an \<open>OSError\<close>), and \<open>..\<close> leads to the
  parent. A part with a NUL character is refused by Python with a \<open>ValueError\<close>.
\<close>

fun walk :: "filesystem \<Rightarrow> string list \<Rightarrow> string list \<Rightarrow> py_error + string list" where
  "walk fs cur [] = Inr cur"
| "walk fs cur (c # cs) =
     (if is_dir fs cur then walk fs (if c = ''..'' then butlast cur else cur @ [c]) cs
      else Inl OSError)"

definition resolve :: "filesystem \<Rightarrow> ppath \<Rightarrow> py_error + string list" where
  "resolve fs p =
     (if list_ex (\<lambda>part. CHR 0x00 \<in> set part) (parts p) then Inl ValueError
      else walk fs [] (parts p))"

text \<open>\<open>p.exists()\<close>: no error escapes it.\<close>

definition path_exists :: "filesystem \<Rightarrow> ppath \<Rightarrow> bool" where
  "path_exists fs p =
     (case resolve fs p of Inl e \<Rightarrow> False | Inr q \<Rightarrow> is_dir fs q \<or> is_file fs q)"

text \<open>
  \<open>open(p, 'r').read()\<close>: in text mode every \<open>\r\n\<close> and every \<open>\r\<close> is read as \<open>\n\<close>.
\<close>

fun universal_newlines :: "string \<Rightarrow> string" where
  "universal_newlines [] = []"
| "universal_newlines [c] = [if c = CHR 0x0D then CHR 0x0A else c]"
| "universal_newlines (c # d # s) =
     (if c = CHR 0x0D \<and> d = CHR 0x0A then CHR 0x0A # universal_newlines s
      else if c = CHR 0x0D then CHR 0x0A # universal_newlines (d # s)
      else c # universal_newlines (d # s))"

definition read_text :: "filesystem \<Rightarrow> ppath \<Rightarrow> py_error + string" where
  "read_text fs p =
     (case resolve fs p of
        Inl e \<Rightarrow> Inl e
      | Inr q \<Rightarrow>
          if is_dir fs q then Inl OSError
          else (case file_text fs q of
                  None \<Rightarrow> Inl OSError
                | Some text \<Rightarrow> Inr (universal_newlines text)))"

text \<open>\<open>open(p, 'w').write(text)\<close>: the file is created or replaced.\<close>

definition write_text :: "filesystem \<Rightarrow> ppath \<Rightarrow> string \<Rightarrow> py_error + filesystem" where
  "write_text fs p text =
     (case resolve fs p of
        Inl e \<Rightarrow> Inl e
      | Inr q \<Rightarrow> if is_dir fs q then Inl OSError
                 else Inr (fs\<lparr>file_text := (file_text fs)(q \<mapsto> text)\<rparr>))"

text \<open>\<open>os.remove(p)\<close>\<close>

definition remove :: "filesystem \<Rightarrow> ppath \<Rightarrow> py_error + filesystem" where
  "remove fs p =
     (case resolve fs p of
        Inl e \<Rightarrow> Inl e
      | Inr q \<Rightarrow> if is_file fs q then Inr (fs\<lparr>file_text := (file_text fs)(q := None)\<rparr>)
                 else Inl OSError)"

text \<open>
  \<open>p.mkdir(parents=True, exist_ok=True)\<close>: the missing directories along the path are
  created, from the root down; a regular file in the way is an \<open>OSError\<close>, and the
  directories created before it stay. The result is the tree and the error, if any.
\<close>

fun make_dirs :: "filesystem \<Rightarrow> string list \<Rightarrow> string list \<Rightarrow> filesystem \<times> py_error option" where
  "make_dirs fs cur [] = (fs, None)"
| "make_dirs fs cur (c # cs) =
     (let nxt = (if c = ''..'' then butlast cur else cur @ [c])
      in if is_dir fs nxt then make_dirs fs nxt cs
         else if file_text fs nxt \<noteq> None then (fs, Some OSError)
         else make_dirs (fs\<lparr>dirs := insert nxt (dirs fs)\<rparr>) nxt cs)"

definition mkdir_parents :: "filesystem \<Rightarrow> ppath \<Rightarrow> filesystem \<times> py_error option" where
  "mkdir_parents fs p =
     (if list_ex (\<lambda>part. CHR 0x00 \<in> set part) (parts p) then (fs, Some ValueError)
      else make_dirs fs [] (parts p))"

section \<open>The organizer: \<open>organize_archive\<close>\<close>

text \<open>
  \<open>json.dumps\<close> of a list of strings, with its default \<open>ensure_ascii\<close>: inside the
  quotes, \<open>"\<close> and \<open>\\<close> get a backslash, the control characters with a short form
  take it, and every other character outside \<open>' '..'~'\<close> is written \<open>\u00xx\<close> (a
  character of this model is below 256). The items are separated by \<open>, \<close>.
\<close>

definition hex_digit :: "nat \<Rightarrow> char" where
  "hex_digit n = (if n < 10 then char_of (48 + n) else char_of (87 + n))"

definition json_escape :: "char \<Rightarrow> string" where
  "json_escape c =
     (if c = CHR 0x22 then [CHR 0x5C, CHR 0x22]
      else if c = CHR 0x5C then [CHR 0x5C, CHR 0x5C]
      else if c = CHR 0x0A then [CHR 0x5C, CHR ''n'']
      else if c = CHR 0x0D then [CHR 0x5C, CHR ''r'']
      else if c = CHR 0x09 then [CHR 0x5C, CHR ''t'']
      else if c = CHR 0x08 then [CHR 0x5C, CHR ''b'']
      else if c = CHR 0x0C then [CHR 0x5C, CHR ''f'']
      else if 32 \<le> (of_char c :: nat) \<and> (of_char c :: nat) \<le> 126 then [c]
      else [CHR 0x5C, CHR ''u'', CHR ''0'', CHR ''0'',
            hex_digit (of_char c div 16), hex_digit (of_char c mod 16)])"

definition json_string :: "string \<Rightarrow> string" where
  "json_string s = [CHR 0x22] @ concat (map json_escape s) @ [CHR 0x22]"

definition json_dumps :: "string list \<Rightarrow> string" where
  "json_dumps items = ''['' @ join '', '' (map json_string items) @ '']''"

text \<open>
  What the commands take from their surroundings: the working directory and the date of
  the run, as \<open>isoformat\<close> and \<open>strftime('%Y-%m-%d')\<close> write it.
\<close>

record env =
  root_dir :: ppath
  today :: string

text \<open>Python's test of a cell in a condition: \<open>None\<close> and the empty string are false.\<close>

definition truthy :: "cell \<Rightarrow> bool" where
  "truthy v = (case v of None \<Rightarrow> False | Some s \<Rightarrow> s \<noteq> [])"

subsection \<open>ARCHIVE-TOOLKIT.py\<close>

definition archive_dir_root :: "env \<Rightarrow> ppath" where
  "archive_dir_root e = joinpath (root_dir e) ''knowledge-archive''"

text \<open>\<open>stage_map.get(stage, "experiential_data")\<close>, for a stage that may be \<open>None\<close>.\<close>

definition stage_folder_root :: "cell \<Rightarrow> string" where
  "stage_folder_root stage =
     (if stage = Some ''experientialdata'' then ''experiential_data''
      else if stage = Some ''analyticalsynthesis'' then ''analytical_synthesis''
      else if stage = Some ''formalizedframework'' then ''formalized_frameworks''
      else ''experiential_data'')"

text \<open>
  \<open>re.sub(r'[^a-z0-9-]', '', name.lower().replace('.md', '').replace(' ', '-'))\<close>
\<close>

definition slug_char :: "char \<Rightarrow> bool" where
  "slug_char c =
     ((CHR ''a'' \<le> c \<and> c \<le> CHR ''z'') \<or> (CHR ''0'' \<le> c \<and> c \<le> CHR ''9'') \<or> c = CHR ''-'')"

definition slug :: "string \<Rightarrow> string" where
  "slug name = filter slug_char (replace '' '' ''-'' (replace ''.md'' '''' (lower name)))"

definition lines :: "string list \<Rightarrow> string" where
  "lines ls = concat (map (\<lambda>l. l @ [CHR 0x0A]) ls)"

definition quoted :: "string \<Rightarrow> string" where
  "quoted s = [CHR 0x22] @ s @ [CHR 0x22]"

text \<open>
  The header of ARCHIVE-TOOLKIT.py, an f-string that ends with an empty line, for the
  domain, the tags and the links that the loop body has computed. The other values come
  from the row with their defaults; a cell that is \<open>None\<close> is shown as \<open>None\<close>.
\<close>

definition frontmatter_root :: "env \<Rightarrow> csv_row \<Rightarrow> string \<Rightarrow> string list \<Rightarrow> string list \<Rightarrow> string" where
  "frontmatter_root e r domain tags links =
     lines
       [''---'',
        ''patterndomain: '' @ domain,
        ''maturationstage: '' @ shown (get_or r ''maturation_stage'' ''experientialdata''),
        ''patterntags: '' @ json_dumps tags,
        ''validationstatus: '' @ shown (get_or r ''validation_status'' ''singleobservation''),
        ''instructionalreadiness: ''
          @ shown (get_or r ''instructional_readiness'' ''internalreference''),
        ''temporal_context:'',
        ''  experience_date: '' @ shown (get_or r ''experience_date'' (today e)),
        ''  analysis_date: '' @ today e,
        ''provenance: '' @ shown (get_or r ''provenance'' ''personaldocumentation''),
        ''source: '' @ quoted ''notebooklm'',
        ''source_url: '' @ quoted (shown (get_or r ''source_url'' '''')),
        ''related_links: '' @ json_dumps links,
        ''import_date: '' @ today e,
        ''---'',
        '''']"

definition target_dir_root :: "env \<Rightarrow> string \<Rightarrow> csv_row \<Rightarrow> ppath" where
  "target_dir_root e domain r =
     joinpath (joinpath (archive_dir_root e) domain)
       (stage_folder_root (get_or r ''maturation_stage'' ''experientialdata''))"

definition new_filename :: "env \<Rightarrow> string \<Rightarrow> string \<Rightarrow> string" where
  "new_filename e domain name = domain @ ''-'' @ slug name @ ''-'' @ today e @ ''.md''"

text \<open>The lines that the command of ARCHIVE-TOOLKIT.py prints.\<close>

datatype message =
    Manifest_missing
  | Starting_organization
  | Skipping_missing_file string
  | Moved string string
  | Error_processing string py_error
  | Organization_complete nat

text \<open>
  The body of the loop for one row: the tree it leaves, the line it prints, and whether
  \<open>success_count\<close> was incremented. The whole body is inside \<open>try\<close>, so an error ends
  the row at the statement that raised it, with what was done before left in place:
  \<open>row["original_path"]\<close> (\<open>KeyError\<close>, or \<open>TypeError\<close> when \<open>None\<close> is joined to the
  path), \<open>.split\<close> on the tags and the links, the join with the domain, \<open>mkdir\<close>,
  \<open>row["filename"].lower()\<close>, the reading, the writing and the removal. The last
  statement, the \<open>print\<close> with \<open>relative_to\<close>, comes after the count.
\<close>

definition failed_row :: "csv_row \<Rightarrow> filesystem \<Rightarrow> py_error \<Rightarrow> filesystem \<times> message \<times> bool" where
  "failed_row r fs err = (fs, Error_processing (shown (get_or r ''filename'' ''unknown'')) err, False)"

definition move_file_root :: "env \<Rightarrow> csv_row \<Rightarrow> string \<Rightarrow> string \<Rightarrow> string list \<Rightarrow> string list \<Rightarrow> ppath \<Rightarrow> filesystem \<Rightarrow> filesystem \<times> message \<times> bool" where
  "move_file_root e r domain name tags links source_path fs1 =
     (let target_path = joinpath (target_dir_root e domain r) (new_filename e domain name)
      in case read_text fs1 source_path of
           Inl err \<Rightarrow> failed_row r fs1 err
         | Inr content \<Rightarrow>
             (case write_text fs1 target_path
                     (frontmatter_root e r domain tags links @ strip_frontmatter content) of
                Inl err \<Rightarrow> failed_row r fs1 err
              | Inr fs2 \<Rightarrow>
                  (case remove fs2 source_path of
                     Inl err \<Rightarrow> failed_row r fs2 err
                   | Inr fs3 \<Rightarrow>
                       (case relative_to target_path (root_dir e) of
                          Inl err \<Rightarrow> (fs3, Error_processing name err, True)
                        | Inr rel \<Rightarrow> (fs3, Moved name rel, True)))))"

definition process_row_root :: "env \<Rightarrow> csv_row \<Rightarrow> filesystem \<Rightarrow> filesystem \<times> message \<times> bool" where
  "process_row_root e r fs =
     (case getitem r ''original_path'' of
        Inl err \<Rightarrow> failed_row r fs err
      | Inr None \<Rightarrow> failed_row r fs TypeError
      | Inr (Some original_path) \<Rightarrow>
          (let source_path = joinpath (root_dir e) original_path
           in if \<not> path_exists fs source_path
              then (fs, Skipping_missing_file original_path, False)
              else
                (case get_or r ''suggested_tags'' '''' of
                   None \<Rightarrow> failed_row r fs AttributeError
                 | Some tag_field \<Rightarrow>
                (case get_or r ''related_links'' '''' of
                   None \<Rightarrow> failed_row r fs AttributeError
                 | Some link_field \<Rightarrow>
                (case get_or r ''suggested_domain'' ''mixed-pattern'' of
                   None \<Rightarrow> failed_row r fs TypeError
                 | Some domain \<Rightarrow>
                (case mkdir_parents fs (target_dir_root e domain r) of
                   (fs1, Some err) \<Rightarrow> failed_row r fs1 err
                 | (fs1, None) \<Rightarrow>
                (case getitem r ''filename'' of
                   Inl err \<Rightarrow> failed_row r fs1 err
                 | Inr None \<Rightarrow> failed_row r fs1 AttributeError
                 | Inr (Some name) \<Rightarrow>
                     move_file_root e r domain name (split_tags CHR '';'' tag_field)
                       (split_tags CHR '';'' link_field) source_path fs1)))))))"

fun process_rows_root :: "env \<Rightarrow> csv_row list \<Rightarrow> filesystem \<Rightarrow> filesystem \<times> message list \<times> nat" where
  "process_rows_root e [] fs = (fs, [], 0)"
| "process_rows_root e (r # rows) fs =
     (case process_row_root e r fs of
        (fs1, m, counted) \<Rightarrow>
          (case process_rows_root e rows fs1 of
             (fs2, ms, n) \<Rightarrow> (fs2, m # ms, (if counted then 1 else 0) + n)))"

text \<open>
  The command: the rows are all read before the first is processed (\<open>None\<close> for a
  manifest that is not there).
\<close>

definition organize_archive_root :: "env \<Rightarrow> csv_row list option \<Rightarrow> filesystem \<Rightarrow> filesystem \<times> message list" where
  "organize_archive_root e manifest_rows fs =
     (case manifest_rows of
        None \<Rightarrow> (fs, [Manifest_missing])
      | Some rows \<Rightarrow>
          (case process_rows_root e rows fs of
             (fs1, ms, n) \<Rightarrow> (fs1, [Starting_organization] @ ms @ [Organization_complete n])))"

subsection \<open>directive/archive\_toolkit.py\<close>

definition staging_dir :: "env \<Rightarrow> ppath" where
  "staging_dir e = joinpath (root_dir e) ''notebooklm-import-raw''"

definition archive_dir :: "env \<Rightarrow> ppath" where
  "archive_dir e = joinpath (root_dir e) ''archive''"

text \<open>
  \<open>row['pattern_domain'].strip().lower().replace(" ", "-")\<close>, the stage as given, and
  the stage as it is looked up.
\<close>

definition normal_domain :: "string \<Rightarrow> string" where
  "normal_domain pattern_domain = replace '' '' ''-'' (lower (strip pattern_domain))"

definition clean_stage :: "string \<Rightarrow> string" where
  "clean_stage raw_stage = replace ''-'' '''' (replace '' '' '''' (lower raw_stage))"

definition stage_folder :: "string \<Rightarrow> string" where
  "stage_folder stage =
     (if stage = ''experientialdata'' then ''experiential_data''
      else if stage = ''analyticalsynthesis'' then ''analytical_synthesis''
      else if stage = ''formalizedframework'' then ''formalized_frameworks''
      else if stage = ''raw'' then ''experiential_data''
      else ''experiential_data'')"

definition dest_dir :: "env \<Rightarrow> string \<Rightarrow> string \<Rightarrow> ppath" where
  "dest_dir e domain raw_stage =
     joinpath (joinpath (archive_dir e) domain) (stage_folder (clean_stage raw_stage))"

definition dest_filename :: "string \<Rightarrow> string" where
  "dest_filename name = (if endswith name ''.md'' then name else stem name @ ''.md'')"

text \<open>
  The tag field is split at commas unless it already starts with a bracket; a cell that
  is \<open>None\<close> or empty gives the empty array.
\<close>

definition tags_value :: "cell \<Rightarrow> string" where
  "tags_value tags =
     (case tags of
        None \<Rightarrow> ''[]''
      | Some field \<Rightarrow>
          if field \<noteq> [] \<and> \<not> startswith field ''[''
          then json_dumps (split_tags CHR '','' field)
          else if field = [] then ''[]''
          else field)"

text \<open>The header and the content, joined with newlines.\<close>

definition document :: "env \<Rightarrow> string \<Rightarrow> string \<Rightarrow> string \<Rightarrow> string \<Rightarrow> string" where
  "document e domain raw_stage tags content =
     join [CHR 0x0A]
       [''---'',
        ''patterndomain: '' @ domain,
        ''maturationstage: '' @ raw_stage,
        ''patterntags: '' @ tags,
        ''validationstatus: singleobservation'',
        ''instructionalreadiness: internalreference'',
        ''temporal_context:'',
        ''  experience_date: '' @ [CHR 0x27, CHR 0x27],
        ''  analysis_date: '' @ today e,
        ''provenance: personaldocumentation'',
        ''source: notebooklm'',
        ''import_date: '' @ today e,
        ''---'',
        '''',
        content]"

text \<open>The lines that the command of directive/archive\_toolkit.py prints.\<close>

datatype notice =
    Manifest_not_found_error
  | Found_manifest_in_root
  | Processing_manifest
  | Skip_no_domain string
  | Warn_source_not_found string
  | Move string string
  | Error_reading string py_error
  | Error_writing string py_error

text \<open>
  The body of the loop for one row: the tree it leaves, and the line it prints or the
  error that escapes. Only the reading and the writing are inside a \<open>try\<close>; a column
  that is not there (\<open>KeyError\<close>), a cell that is \<open>None\<close> where a string is used, and
  an error of \<open>mkdir\<close> end the command.
\<close>

definition copy_file :: "env \<Rightarrow> csv_row \<Rightarrow> string \<Rightarrow> string \<Rightarrow> string \<Rightarrow> ppath \<Rightarrow> filesystem \<Rightarrow> filesystem \<times> (py_error + notice)" where
  "copy_file e r domain raw_stage name src_path fs1 =
     (let dest_path = joinpath (dest_dir e domain raw_stage) (dest_filename name)
      in case read_text fs1 src_path of
           Inl err \<Rightarrow> (fs1, Inr (Error_reading (path_str src_path) err))
         | Inr content \<Rightarrow>
             (case write_text fs1 dest_path
                     (document e domain raw_stage (tags_value (get_or r ''pattern_tags'' ''[]''))
                        content) of
                Inl err \<Rightarrow> (fs1, Inr (Error_writing (path_str dest_path) err))
              | Inr fs2 \<Rightarrow>
                  (fs2, Inr (Move (path_name (parts src_path)) (path_str dest_path)))))"

definition process_entry :: "env \<Rightarrow> csv_row \<Rightarrow> filesystem \<Rightarrow> filesystem \<times> (py_error + notice)" where
  "process_entry e r fs =
     (if \<not> truthy (get r ''pattern_domain'')
      then (case getitem r ''filename'' of
              Inl err \<Rightarrow> (fs, Inl err)
            | Inr name \<Rightarrow> (fs, Inr (Skip_no_domain (shown name))))
      else
        (case getitem r ''filepath'' of
           Inl err \<Rightarrow> (fs, Inl err)
         | Inr None \<Rightarrow> (fs, Inl TypeError)
         | Inr (Some filepath) \<Rightarrow>
             (let src_path = joinpath (staging_dir e) filepath
              in if \<not> path_exists fs src_path
                 then (fs, Inr (Warn_source_not_found (path_str src_path)))
                 else
                   (let domain = normal_domain (shown (get r ''pattern_domain''))
                    in case getitem r ''maturation_stage'' of
                         Inl err \<Rightarrow> (fs, Inl err)
                       | Inr None \<Rightarrow> (fs, Inl AttributeError)
                       | Inr (Some stage) \<Rightarrow>
                           (case mkdir_parents fs (dest_dir e domain (strip stage)) of
                              (fs1, Some err) \<Rightarrow> (fs1, Inl err)
                            | (fs1, None) \<Rightarrow>
                                (case getitem r ''filename'' of
                                   Inl err \<Rightarrow> (fs1, Inl err)
                                 | Inr None \<Rightarrow> (fs1, Inl AttributeError)
                                 | Inr (Some name) \<Rightarrow>
                                     copy_file e r domain (strip stage) name src_path fs1))))))"

fun process_entries :: "env \<Rightarrow> csv_row list \<Rightarrow> filesystem \<Rightarrow> filesystem \<times> notice list \<times> py_error option" where
  "process_entries e [] fs = (fs, [], None)"
| "process_entries e (r # rows) fs =
     (case process_entry e r fs of
        (fs1, Inl err) \<Rightarrow> (fs1, [], Some err)
      | (fs1, Inr m) \<Rightarrow>
          (case process_entries e rows fs1 of
             (fs2, ms, raised_error) \<Rightarrow> (fs2, m # ms, raised_error)))"

text \<open>
  The command looks for the manifest under \<open>manifests/\<close>, then in the working directory.
\<close>

definition organize_archive :: "env \<Rightarrow> csv_row list option \<Rightarrow> csv_row list option \<Rightarrow> filesystem \<Rightarrow> filesystem \<times> notice list \<times> py_error option" where
  "organize_archive e manifest_rows fallback_rows fs =
     (case manifest_rows of
        Some rows \<Rightarrow>
          (case process_entries e rows fs of
             (fs1, ms, raised_error) \<Rightarrow> (fs1, Processing_manifest # ms, raised_error))
      | None \<Rightarrow>
          (case fallback_rows of
             None \<Rightarrow> (fs, [Manifest_not_found_error], None)
           | Some rows \<Rightarrow>
               (case process_entries e rows fs of
                  (fs1, ms, raised_error) \<Rightarrow>
                    (fs1, [Found_manifest_in_root, Processing_manifest] @ ms, raised_error))))"

section \<open>Example inputs of the organizer\<close>

text \<open>
  A working directory \<open>/home/lab\<close> on 4 November 2026, with one staged note,
  \<open>notebooklm-import-raw/foo.md\<close>, that already has a header.
\<close>

definition lab :: env where
  "lab = \<lparr>root_dir = PPath False [''home'', ''lab''], today = ''2026-11-04''\<rparr>"

definition foo_text :: string where
  "foo_text = lines [''---'', ''old: 1'', ''---''] @ ''body''"

definition staged :: filesystem where
  "staged =
     \<lparr>file_text = [[''home'', ''lab'', ''notebooklm-import-raw'', ''foo.md''] \<mapsto> foo_text],
      dirs = {[''home''], [''home'', ''lab''], [''home'', ''lab'', ''notebooklm-import-raw'']}\<rparr>"

text \<open>Rows of the manifest of ARCHIVE-TOOLKIT.py for that note, and one for a note that is gone.\<close>

definition plain_row :: csv_row where
  "plain_row =
     [''original_path'' \<mapsto> Some ''notebooklm-import-raw/foo.md'',
      ''filename'' \<mapsto> Some ''foo.md'',
      ''suggested_domain'' \<mapsto> Some ''tradecraft'',
      ''suggested_tags'' \<mapsto> Some ''humint;code-snippet'',
      ''maturation_stage'' \<mapsto> Some ''formalizedframework'',
      ''validation_status'' \<mapsto> Some ''singleobservation'',
      ''instructional_readiness'' \<mapsto> Some ''internalreference'',
      ''experience_date'' \<mapsto> Some ''2026-11-04'',
      ''provenance'' \<mapsto> Some ''personaldocumentation'',
      ''source_url'' \<mapsto> Some '''',
      ''related_links'' \<mapsto> Some '''',
      ''snippet'' \<mapsto> Some ''body'',
      ''status'' \<mapsto> Some ''pending_review'']"

definition unclassified_row :: csv_row where
  "unclassified_row = plain_row(''suggested_domain'' \<mapsto> Some '''')"



text \<open>Rows of the manifest of directive/archive\_toolkit.py.\<close>

definition plain_entry :: csv_row where
  "plain_entry =
     [''filepath'' \<mapsto> Some ''foo.md'',
      ''filename'' \<mapsto> Some ''foo.md'',
      ''pattern_domain'' \<mapsto> Some ''tradecraft'',
      ''pattern_tags'' \<mapsto> Some ''humint,code-snippet'',
      ''maturation_stage'' \<mapsto> Some ''formalizedframework'',
      ''snippet'' \<mapsto> Some ''body'']"



section \<open>The readers of the header\<close>

subsection \<open>\<open>json.loads\<close> on an array of strings\<close>









subsection \<open>\<open>report_statistics\<close> (directive/archive\_toolkit.py)\<close>




subsection \<open>\<open>generate_indices\<close> (ARCHIVE-TOOLKIT.py)\<close>



section \<open>Properties of \<open>extract_snippet\<close>\<close>

lemma split_ws_token: "w \<in> set (split_ws s) \<Longrightarrow> token w"
proof (induction s rule: split_ws.induct)
  case 1
  then show ?case by simp
next
  case (2 c cs)
  show ?case
  proof (cases "is_space c")
    case True
    with 2 show ?thesis by simp
  next
    case False
    with "2.prems" have "w = c # takeWhile (\<lambda>x. \<not> is_space x) cs
        \<or> w \<in> set (split_ws (dropWhile (\<lambda>x. \<not> is_space x) cs))"
      by simp
    then show ?thesis
    proof
      assume "w = c # takeWhile (\<lambda>x. \<not> is_space x) cs"
      then show ?thesis
        using False by (auto simp: token_def list_all_iff dest: set_takeWhileD)
    next
      assume "w \<in> set (split_ws (dropWhile (\<lambda>x. \<not> is_space x) cs))"
      then show ?thesis using False "2.IH"(2) by blast
    qed
  qed
qed

lemma split_ws_token_append:
  assumes "token w" and "r = [] \<or> is_space (hd r)"
  shows "split_ws (w @ r) = w # split_ws r"
proof -
  from assms(1) obtain c cs where w: "w = c # cs" and c: "\<not> is_space c"
    and cs: "\<forall>x \<in> set cs. \<not> is_space x"
    by (cases w) (auto simp: token_def list_all_iff)
  have t: "takeWhile (\<lambda>x. \<not> is_space x) (cs @ r) = cs"
    using cs assms(2) by (cases r) (auto simp: takeWhile_append2)
  have d: "dropWhile (\<lambda>x. \<not> is_space x) (cs @ r) = r"
    using cs assms(2) by (cases r) (auto simp: dropWhile_append2)
  show ?thesis using c t d by (simp add: w)
qed

lemma is_space_blank: "is_space CHR '' ''"
  by (simp add: is_space_def)

lemma split_ws_join:
  "\<forall>w \<in> set ws. token w \<Longrightarrow> split_ws (join '' '' ws) = ws"
proof (induction "'' ''" ws rule: join.induct)
  case 1
  then show ?case by simp
next
  case (2 x)
  then show ?case using split_ws_token_append [of x "[]"] by simp
next
  case (3 x y ys)
  have "split_ws (x @ '' '' @ join '' '' (y # ys)) = x # split_ws ('' '' @ join '' '' (y # ys))"
    using 3 by (intro split_ws_token_append) (simp_all add: is_space_blank)
  also have "split_ws ('' '' @ join '' '' (y # ys)) = split_ws (join '' '' (y # ys))"
    by (simp add: is_space_blank)
  finally show ?case using 3 by simp
qed

lemma join_append_last:
  "ws \<noteq> [] \<Longrightarrow> join sep ws @ x = join sep (butlast ws @ [last ws @ x])"
  by (induction sep ws rule: join.induct) auto

lemma token_append: "token w \<Longrightarrow> \<forall>c \<in> set x. \<not> is_space c \<Longrightarrow> token (w @ x)"
  by (auto simp: token_def list_all_iff)

lemma split_ws_join_ellipsis:
  assumes "\<forall>w \<in> set ws. token w" and "ws \<noteq> []"
  shows "split_ws (join '' '' ws @ ''...'') = butlast ws @ [last ws @ ''...'']"
proof -
  have l: "token (last ws @ ''...'')"
    using assms by (intro token_append) (auto simp: is_space_def)
  have "\<forall>w \<in> set (butlast ws @ [last ws @ ''...'']). token w"
    using assms(1) l by (auto dest: in_set_butlastD)
  then have "split_ws (join '' '' (butlast ws @ [last ws @ ''...''])) = butlast ws @ [last ws @ ''...'']"
    by (rule split_ws_join)
  then show ?thesis using assms(2) by (simp add: join_append_last)
qed

lemma skip_frontmatter_returns: "\<exists>t. skip_frontmatter text = Inr t"
proof (cases "skip_frontmatter_try (strip text)")
  case (Inl e)
  then have "e = ValueError"
    by (auto simp: skip_frontmatter_try_def split: list.splits)
  with Inl show ?thesis by (simp add: skip_frontmatter_def Let_def)
next
  case (Inr t)
  then show ?thesis by (simp add: skip_frontmatter_def Let_def)
qed

lemma tokens_slice: "\<forall>w \<in> set (slice_to (split_ws s) n). token w"
  by (auto simp: slice_to_def dest!: in_set_takeD split_ws_token)

lemma extract_snippet_directive_eq:
  assumes "skip_frontmatter text = Inr body"
  shows "extract_snippet_directive text wc =
      Inr (if int (length (split_ws (sub_hashes 0 body))) > wc
           then join '' '' (slice_to (split_ws (sub_hashes 0 body)) wc) @ ''...''
           else join '' '' (slice_to (split_ws (sub_hashes 0 body)) wc))"
  by (simp add: extract_snippet_directive_def assms Let_def)

text \<open>
  C5, as the code has it. \<open>extract_snippet\<close> returns normally on every text, with or
  without a header block. For a word count of at least one the snippet has at most that
  many whitespace-delimited tokens in both variants; the variant of ARCHIVE-TOOLKIT.py,
  which appends nothing, also keeps the bound at zero.
\<close>

theorem extract_snippet_bounded:
  "(0 \<le> wc \<longrightarrow> int (length (split_ws (extract_snippet_root text wc))) \<le> wc)
   \<and> (\<exists>s. extract_snippet_directive text wc = Inr s
          \<and> (0 < wc \<longrightarrow> int (length (split_ws s)) \<le> wc))"
proof
  show "0 \<le> wc \<longrightarrow> int (length (split_ws (extract_snippet_root text wc))) \<le> wc"
    using tokens_slice [of "strip_frontmatter text" wc]
    by (auto simp: extract_snippet_root_def split_ws_join) (simp add: slice_to_def)
next
  obtain t where t: "skip_frontmatter text = Inr t"
    using skip_frontmatter_returns by blast
  define ws where "ws = split_ws (sub_hashes 0 t)"
  have tok: "\<forall>w \<in> set (slice_to ws wc). token w"
    unfolding ws_def by (rule tokens_slice)
  have e: "extract_snippet_directive text wc =
      Inr (if int (length ws) > wc then join '' '' (slice_to ws wc) @ ''...''
           else join '' '' (slice_to ws wc))"
    unfolding ws_def by (rule extract_snippet_directive_eq [OF t])
  have "int (length (split_ws (if int (length ws) > wc then join '' '' (slice_to ws wc) @ ''...''
           else join '' '' (slice_to ws wc)))) \<le> wc" if "0 < wc"
  proof (cases "int (length ws) > wc")
    case True
    with that have ne: "slice_to ws wc \<noteq> []" by (auto simp: slice_to_def)
    show ?thesis using True that split_ws_join_ellipsis [OF tok ne]
      by (simp add: slice_to_def)
  next
    case False
    then show ?thesis using that split_ws_join [OF tok] by (simp add: slice_to_def)
  qed
  then show "\<exists>s. extract_snippet_directive text wc = Inr s
          \<and> (0 < wc \<longrightarrow> int (length (split_ws s)) \<le> wc)"
    using e by auto
qed

theorem extract_snippet_bounded_witness:
  "(0::int) < 2
   \<and> extract_snippet_root ''one two three'' 2 = ''one two''
   \<and> int (length (split_ws (extract_snippet_root ''one two three'' 2))) \<le> 2
   \<and> extract_snippet_directive ''one two three'' 2 = Inr ''one two...''
   \<and> int (length (split_ws ''one two...'')) \<le> 2"
proof -
  have r: "extract_snippet_root ''one two three'' 2 = ''one two''"
    by code_simp
  have d: "extract_snippet_directive ''one two three'' 2 = Inr ''one two...''"
    by code_simp
  from extract_snippet_bounded [of 2 "''one two three''"] d
  have "int (length (split_ws (extract_snippet_root ''one two three'' 2))) \<le> 2
      \<and> int (length (split_ws ''one two...'')) \<le> 2"
    by simp
  with r d show ?thesis by simp
qed

text \<open>
  The bound as the claim states it, for every word count, fails: at a word count of zero
  the variant of directive/archive\_toolkit.py answers a text that has a token with the
  bare ellipsis, which is one token; and a negative word count is a slice bound counted
  from the end of the token list.
\<close>

theorem extract_snippet_bound_counterexample:
  "extract_snippet_directive ''one two'' 0 = Inr ''...''
   \<and> \<not> int (length (split_ws ''...'')) \<le> 0
   \<and> extract_snippet_root ''one two'' (- 1) = ''one''
   \<and> \<not> int (length (split_ws ''one'')) \<le> - 1"
  by code_simp

text \<open>
  C7, as the code has it, for a word count that is not negative. In ARCHIVE-TOOLKIT.py the
  snippet is the first \<open>word_count\<close> tokens of the text left by the header pattern, joined
  with single spaces, and nothing is ever appended (its callers add their own dots). In
  directive/archive\_toolkit.py the tokens are those of the text left after the header skip
  and after the removal of heading markers (\<open>#\<close> runs with the whitespace character
  that follows), and the ellipsis is appended exactly when there were more tokens than
  \<open>word_count\<close>. Either way the tokens of the snippet are the tokens taken, the last one
  carrying the ellipsis when there is one.
\<close>

theorem extract_snippet_tokens:
  assumes "0 \<le> wc"
  shows "extract_snippet_root text wc
           = join '' '' (take (nat wc) (split_ws (strip_frontmatter text)))
       \<and> split_ws (extract_snippet_root text wc)
           = take (nat wc) (split_ws (strip_frontmatter text))
       \<and> (\<exists>body. skip_frontmatter text = Inr body
            \<and> extract_snippet_directive text wc
                = Inr (snippet_spec (sub_hashes 0 body) (nat wc)))"
proof -
  have tok: "\<forall>w \<in> set (take (nat wc) (split_ws (strip_frontmatter text))). token w"
    by (auto dest!: in_set_takeD split_ws_token)
  have r: "extract_snippet_root text wc
      = join '' '' (take (nat wc) (split_ws (strip_frontmatter text)))"
    using assms by (simp add: extract_snippet_root_def slice_to_def)
  obtain body where b: "skip_frontmatter text = Inr body"
    using skip_frontmatter_returns by blast
  have "extract_snippet_directive text wc = Inr (snippet_spec (sub_hashes 0 body) (nat wc))"
    using assms
    by (simp add: extract_snippet_directive_eq [OF b] snippet_spec_def Let_def slice_to_def)
      linarith
  with b r split_ws_join [OF tok] show ?thesis by auto
qed

theorem extract_snippet_tokens_witness:
  "(0::int) \<le> 2
   \<and> extract_snippet_root ''one two three'' 2 = ''one two''
   \<and> split_ws (extract_snippet_root ''one two three'' 2) = [''one'', ''two'']
   \<and> skip_frontmatter ''## one two three'' = Inr ''## one two three''
   \<and> extract_snippet_directive ''## one two three'' 2 = Inr ''one two...''"
proof -
  have b: "skip_frontmatter ''## one two three'' = Inr ''## one two three''"
    by code_simp
  have h: "snippet_spec (sub_hashes 0 ''## one two three'') (nat 2) = ''one two...''"
    by code_simp
  from extract_snippet_tokens [of 2 "''## one two three''"] b h
  have d: "extract_snippet_directive ''## one two three'' 2 = Inr ''one two...''"
    by simp
  have "extract_snippet_root ''one two three'' 2 = ''one two''
      \<and> split_ws (extract_snippet_root ''one two three'' 2) = [''one'', ''two'']"
    by code_simp
  moreover have "(0::int) \<le> 2" by simp
  ultimately show ?thesis using b d by blast
qed

text \<open>
  The claim as stated fails in both variants: ARCHIVE-TOOLKIT.py truncates without an
  ellipsis, and directive/archive\_toolkit.py drops heading markers before it takes the
  tokens, so its tokens are not those of the text left by header stripping.
\<close>

theorem extract_snippet_ellipsis_counterexample:
  "strip_frontmatter ''one two three'' = ''one two three''
   \<and> extract_snippet_root ''one two three'' 2 = ''one two''
   \<and> snippet_spec ''one two three'' 2 = ''one two...''
   \<and> skip_frontmatter ''# one'' = Inr ''# one''
   \<and> extract_snippet_directive ''# one'' 5 = Inr ''one''
   \<and> snippet_spec ''# one'' 5 = ''# one''"
  by code_simp

section \<open>Properties of \<open>suggest_metadata\<close>\<close>

text \<open>
  C8. The stage is \<open>formalizedframework\<close> exactly when \<open>doctrine\<close> occurs in the
  lowercased content and \<open>experientialdata\<close> otherwise. The domain is \<open>tradecraft\<close> with
  tag \<open>code-snippet\<close> when one of \<open>code\<close>, \<open>function\<close>, \<open>def \<close> occurs; otherwise it is
  \<open>forensic-psychology\<close> with tag \<open>reflection\<close> when one of \<open>journal\<close>, \<open>diary\<close>,
  \<open>felt\<close> occurs; otherwise it is the default \<open>social-engineering\<close> with no tag. The
  tradecraft branch wins when both keyword sets are present.
\<close>

theorem suggest_metadata_rules:
  assumes "suggest_metadata content fname = (domain, tags, stage)"
    and "lc = lower content"
    and "kw_code = (contains lc ''code'' \<or> contains lc ''function'' \<or> contains lc ''def '')"
    and "kw_refl = (contains lc ''journal'' \<or> contains lc ''diary'' \<or> contains lc ''felt'')"
  shows "(stage = ''formalizedframework'' \<longleftrightarrow> contains lc ''doctrine'')
       \<and> (stage = ''experientialdata'' \<longleftrightarrow> \<not> contains lc ''doctrine'')
       \<and> (kw_code \<longrightarrow> domain = ''tradecraft'' \<and> tags = ''code-snippet'')
       \<and> (\<not> kw_code \<and> kw_refl \<longrightarrow> domain = ''forensic-psychology'' \<and> tags = ''reflection'')
       \<and> (\<not> kw_code \<and> \<not> kw_refl \<longrightarrow> domain = ''social-engineering'' \<and> tags = '''')"
  using assms by (auto simp: suggest_metadata_def Let_def split: if_splits)

theorem suggest_metadata_rules_witness:
  "suggest_metadata ''I felt the Doctrine in this Code'' ''note.md''
     = (''tradecraft'', ''code-snippet'', ''formalizedframework'')
   \<and> contains (lower ''I felt the Doctrine in this Code'') ''felt''
   \<and> contains (lower ''I felt the Doctrine in this Code'') ''code''
   \<and> contains (lower ''I felt the Doctrine in this Code'') ''doctrine''"
proof -
  have e: "suggest_metadata ''I felt the Doctrine in this Code'' ''note.md''
     = (''tradecraft'', ''code-snippet'', ''formalizedframework'')"
    by code_simp
  have l: "lower ''I felt the Doctrine in this Code'' = ''i felt the doctrine in this code''"
    by code_simp
  from suggest_metadata_rules [OF e refl refl refl] l show ?thesis
    using e by simp
qed

text \<open>
  C10. The suggestion does not depend on the filename: any two filenames give the same
  result for the same content.
\<close>

theorem suggest_metadata_filename_independent:
  "suggest_metadata content f1 = suggest_metadata content f2"
  by (simp add: suggest_metadata_def)

section \<open>What the validator reports\<close>




















section \<open>The organizer and a source file that is missing\<close>















section \<open>The organizer on rows without a domain, with an old header, with an unnormalized domain\<close>

text \<open>
  Claim C1 says that a row with an empty domain is passed over: its source file stays and
  no destination file is created. directive/archive\_toolkit.py does so (lemma
  \<open>process_entry_unclassified\<close>). ARCHIVE-TOOLKIT.py has no such test: run on the
  manifest with the one row \<open>unclassified_row\<close>, whose domain is empty, it removes
  \<open>notebooklm-import-raw/foo.md\<close> and writes
  \<open>knowledge-archive/formalized_frameworks/-foo-2026-11-04.md\<close>, outside any domain
  directory, with the header line \<open>patterndomain: \<close>, and counts one file processed.
\<close>

theorem unclassified_row_is_moved:
  "snd (organize_archive_root lab (Some [unclassified_row]) staged)
     = [Starting_organization,
        Moved ''foo.md'' ''knowledge-archive/formalized_frameworks/-foo-2026-11-04.md'',
        Organization_complete 1]
   \<and> file_text (fst (organize_archive_root lab (Some [unclassified_row]) staged))
       [''home'', ''lab'', ''notebooklm-import-raw'', ''foo.md''] = None
   \<and> file_text (fst (organize_archive_root lab (Some [unclassified_row]) staged))
       [''home'', ''lab'', ''knowledge-archive'', ''formalized_frameworks'', ''-foo-2026-11-04.md'']
     = Some (lines
         [''---'',
          ''patterndomain: '',
          ''maturationstage: formalizedframework'',
          ''patterntags: ['' @ quoted ''humint'' @ '', '' @ quoted ''code-snippet'' @ '']'',
          ''validationstatus: singleobservation'',
          ''instructionalreadiness: internalreference'',
          ''temporal_context:'',
          ''  experience_date: 2026-11-04'',
          ''  analysis_date: 2026-11-04'',
          ''provenance: personaldocumentation'',
          ''source: '' @ quoted ''notebooklm'',
          ''source_url: '' @ quoted '''',
          ''related_links: []'',
          ''import_date: 2026-11-04'',
          ''---'',
          ''''] @ ''body'')"
  by code_simp

text \<open>
  Claim C2 says that after a row is organized the staged file is gone and the archived
  text does not begin with the header of the staged file. ARCHIVE-TOOLKIT.py does both
  for \<open>plain_row\<close> (the last two equations). directive/archive\_toolkit.py, run on the
  manifest with the one row \<open>plain_entry\<close>, prints its \<open>[MOVE]\<close> line, but
  \<open>notebooklm-import-raw/foo.md\<close> is still there with its text, and the archived file
  has the old header \<open>old: 1\<close> right after the new one.
\<close>

theorem source_kept_and_header_nested:
  "snd (organize_archive lab (Some [plain_entry]) None staged)
     = ([Processing_manifest,
         Move ''foo.md'' ''/home/lab/archive/tradecraft/formalized_frameworks/foo.md''], None)
   \<and> file_text (fst (organize_archive lab (Some [plain_entry]) None staged))
       [''home'', ''lab'', ''notebooklm-import-raw'', ''foo.md'']
     = Some (lines [''---'', ''old: 1'', ''---''] @ ''body'')
   \<and> file_text (fst (organize_archive lab (Some [plain_entry]) None staged))
       [''home'', ''lab'', ''archive'', ''tradecraft'', ''formalized_frameworks'', ''foo.md'']
     = Some (lines
         [''---'',
          ''patterndomain: tradecraft'',
          ''maturationstage: formalizedframework'',
          ''patterntags: ['' @ quoted ''humint'' @ '', '' @ quoted ''code-snippet'' @ '']'',
          ''validationstatus: singleobservation'',
          ''instructionalreadiness: internalreference'',
          ''temporal_context:'',
          ''  experience_date: '' @ [CHR 0x27, CHR 0x27],
          ''  analysis_date: 2026-11-04'',
          ''provenance: personaldocumentation'',
          ''source: notebooklm'',
          ''import_date: 2026-11-04'',
          ''---'',
          '''',
          ''---'',
          ''old: 1'',
          ''---''] @ ''body'')
   \<and> file_text (fst (organize_archive_root lab (Some [plain_row]) staged))
       [''home'', ''lab'', ''notebooklm-import-raw'', ''foo.md''] = None
   \<and> file_text (fst (organize_archive_root lab (Some [plain_row]) staged))
       [''home'', ''lab'', ''knowledge-archive'', ''tradecraft'', ''formalized_frameworks'',
        ''tradecraft-foo-2026-11-04.md'']
     = Some (lines
         [''---'',
          ''patterndomain: tradecraft'',
          ''maturationstage: formalizedframework'',
          ''patterntags: ['' @ quoted ''humint'' @ '', '' @ quoted ''code-snippet'' @ '']'',
          ''validationstatus: singleobservation'',
          ''instructionalreadiness: internalreference'',
          ''temporal_context:'',
          ''  experience_date: 2026-11-04'',
          ''  analysis_date: 2026-11-04'',
          ''provenance: personaldocumentation'',
          ''source: '' @ quoted ''notebooklm'',
          ''source_url: '' @ quoted '''',
          ''related_links: []'',
          ''import_date: 2026-11-04'',
          ''---'',
          ''''] @ ''body'')"
  by code_simp









section \<open>The header, written and read back\<close>










































end
